theory Spec2Isabelle
  imports Main
begin

section \<open>VaxSys: the administrative server actions and the signup action\<close>

text \<open>
  The theory embeds \<^verbatim>\<open>src/app/admin/dashboard/actions.ts\<close> (getUsers, getCenters,
  updateUserRole, verifyCenter, rejectCenter, initializeFirebaseAdmin) and
  \<^verbatim>\<open>src/app/signup/actions.ts\<close> (signup). The document store, the identity provider
  and the framework's cache invalidation are collaborators outside the repository: each
  call to one of them either throws the error that the environment prescribes for it or
  has its documented effect on an explicit world state.
\<close>

subsection \<open>JavaScript values, thrown errors, result envelopes\<close>

datatype jsval =
    JUndefined
  | JNull
  | JBool bool
  | JNum int
  | JStr string
  | JArr "jsval list"
  | JObj "(string \<times> jsval) list"

text \<open>A thrown value, as the catch blocks read it: \<^verbatim>\<open>error.code\<close> and \<^verbatim>\<open>error.message\<close>.\<close>

record exn =
  err_code :: jsval
  err_message :: string

text \<open>Property read \<^verbatim>\<open>data[k]\<close>: \<^verbatim>\<open>undefined\<close> when the key is absent.\<close>

definition js_get :: "jsval \<Rightarrow> string \<Rightarrow> jsval" where
  "js_get v k =
     (case v of
        JObj kvs \<Rightarrow> (case map_of kvs k of Some x \<Rightarrow> x | None \<Rightarrow> JUndefined)
      | _ \<Rightarrow> JUndefined)"

text \<open>\<^verbatim>\<open>{ success: true }\<close> and \<^verbatim>\<open>{ success: false, error: msg }\<close>.\<close>

definition success_result :: jsval where
  "success_result = JObj [(''success'', JBool True)]"

definition failure :: "string \<Rightarrow> jsval" where
  "failure msg = JObj [(''success'', JBool False), (''error'', JStr msg)]"

text \<open>
  The uniform envelope of the operation surface: an object whose \<^verbatim>\<open>success\<close> is a
  boolean, with a string \<^verbatim>\<open>error\<close> exactly when \<^verbatim>\<open>success\<close> is false.
\<close>

definition is_envelope :: "jsval \<Rightarrow> bool" where
  "is_envelope v =
     (case js_get v ''success'' of
        JBool True \<Rightarrow> js_get v ''error'' = JUndefined
      | JBool False \<Rightarrow> (case js_get v ''error'' of JStr m \<Rightarrow> True | _ \<Rightarrow> False)
      | _ \<Rightarrow> False)"

subsection \<open>Stored records\<close>

text \<open>
  Modelled from the spec: the schemas of the two collections (\<^verbatim>\<open>@/models/User\<close> and
  \<^verbatim>\<open>@/models/Center\<close> are outside the embedded files). Section 3 of the specification
  lists the fields: a User has a store-assigned id, \<^verbatim>\<open>firebaseUid\<close>, \<^verbatim>\<open>email\<close>,
  \<^verbatim>\<open>firstName\<close>, \<^verbatim>\<open>lastName\<close>, \<^verbatim>\<open>displayName\<close>, a \<^verbatim>\<open>role\<close> among
  citizen, authority, center, and \<^verbatim>\<open>emailVerified\<close>; a Center has an id, an optional
  \<^verbatim>\<open>uid\<close>, \<^verbatim>\<open>center_name\<close>, \<^verbatim>\<open>email\<close>, a location (district, address) and
  \<^verbatim>\<open>verified\<close>. \<^verbatim>\<open>user_v\<close> is the store's version key \<^verbatim>\<open>__v\<close>.
\<close>

datatype role = Citizen | Authority | CenterRole

definition role_name :: "role \<Rightarrow> string" where
  "role_name r = (case r of Citizen \<Rightarrow> ''citizen'' | Authority \<Rightarrow> ''authority'' | CenterRole \<Rightarrow> ''center'')"

record user =
  user_id :: string
  firebaseUid :: string
  email :: string
  firstName :: string
  lastName :: string
  displayName :: string
  role :: role
  emailVerified :: bool
  user_v :: int

record center =
  center_id :: string
  uid :: "string option"
  center_name :: string
  center_email :: string
  district :: string
  address :: string
  verified :: bool

text \<open>An account handle of the identity provider: its unique id and its email.\<close>

record firebase_user =
  fb_uid :: string
  fb_email :: string

datatype idp_call =
    CreateUserCall string string
  | SendVerificationCall string string
  | DeleteUserCall string

text \<open>
  The world: the two collections of the document store, the number of initialised
  admin apps of the process (\<^verbatim>\<open>admin.apps.length\<close>), the accounts held by the identity
  provider, and the requests made to the identity provider so far, oldest first.
\<close>

record world =
  users :: "user list"
  centers :: "center list"
  admin_apps :: nat
  idp_accounts :: "firebase_user list"
  idp_calls :: "idp_call list"

subsection \<open>The environment of a call\<close>

datatype extcall =
    DbConnect
  | UserFind | UserFindOne | UserFindById | UserSave
  | CenterFind | CenterFindById | CenterFindByIdAndUpdate | CenterFindByIdAndDelete
  | RevalidatePath
  | JsonParse | CredentialCert | InitializeApp | AdminAuth | AuthDeleteUser
  | GetAuth | CreateUserWithEmailAndPassword | SendEmailVerification

text \<open>
  What lies outside the repository during one call of an action: for each collaborator
  call whether it throws (and what), the two environment variables, the account handle
  the provider hands out when it creates an account, and the id the store assigns to a
  new document.
\<close>

record env =
  faults :: "extcall \<Rightarrow> exn option"
  FIREBASE_ADMIN_KEY :: "string option"
  NEXT_PUBLIC_BASE_URL :: "string option"
  created_user :: firebase_user
  new_object_id :: string

type_synonym 'a io = "(exn + 'a) \<times> world"

text \<open>Sequencing of awaited calls: a thrown error skips the rest of the block.\<close>

definition bnd :: "'a io \<Rightarrow> ('a \<Rightarrow> world \<Rightarrow> 'b io) \<Rightarrow> 'b io" where
  "bnd r f = (case r of (Inl e, w) \<Rightarrow> (Inl e, w) | (Inr a, w) \<Rightarrow> f a w)"

text \<open>
  A collaborator call: it throws what the environment prescribes, leaving the world as
  it was, or performs its effect.
\<close>

definition attempt :: "env \<Rightarrow> extcall \<Rightarrow> (world \<Rightarrow> 'a \<times> world) \<Rightarrow> world \<Rightarrow> 'a io" where
  "attempt env c k w =
     (case faults env c of
        Some e \<Rightarrow> (Inl e, w)
      | None \<Rightarrow> (case k w of (a, w') \<Rightarrow> (Inr a, w')))"

subsection \<open>The document store adapter\<close>

text \<open>
  Modelled from the spec: the document store adapter (section 6: \<^verbatim>\<open>find\<close>,
  \<^verbatim>\<open>findOne\<close>, \<^verbatim>\<open>findById\<close>, \<^verbatim>\<open>save\<close>, \<^verbatim>\<open>findByIdAndUpdate\<close>,
  \<^verbatim>\<open>findByIdAndDelete\<close>, and the lazily established connection), which lies outside
  the embedded files. \<^verbatim>\<open>_id\<close> is the primary key of a collection, so the by-id operations
  act on the record that carries the id. \<^verbatim>\<open>save\<close> of a loaded document writes its
  modified paths only; the one path the actions modify is \<^verbatim>\<open>role\<close>. \<^verbatim>\<open>save\<close> of
  a new document appends it.
\<close>

definition dbConnect :: "env \<Rightarrow> world \<Rightarrow> unit io" where
  "dbConnect env w = attempt env DbConnect (\<lambda>w. ((), w)) w"

definition User_findOne :: "env \<Rightarrow> string \<Rightarrow> world \<Rightarrow> user option io" where
  "User_findOne env fuid w =
     attempt env UserFindOne (\<lambda>w. (find (\<lambda>u. firebaseUid u = fuid) (users w), w)) w"

definition User_findById :: "env \<Rightarrow> string \<Rightarrow> world \<Rightarrow> user option io" where
  "User_findById env i w =
     attempt env UserFindById (\<lambda>w. (find (\<lambda>u. user_id u = i) (users w), w)) w"

definition User_save_role :: "env \<Rightarrow> user \<Rightarrow> world \<Rightarrow> unit io" where
  "User_save_role env doc w =
     attempt env UserSave
       (\<lambda>w. ((), w\<lparr>users :=
                  map (\<lambda>u. if user_id u = user_id doc then u\<lparr>role := role doc\<rparr> else u) (users w)\<rparr>)) w"

definition User_save_new :: "env \<Rightarrow> user \<Rightarrow> world \<Rightarrow> unit io" where
  "User_save_new env doc w =
     attempt env UserSave (\<lambda>w. ((), w\<lparr>users := users w @ [doc]\<rparr>)) w"

definition Center_findById :: "env \<Rightarrow> string \<Rightarrow> world \<Rightarrow> center option io" where
  "Center_findById env i w =
     attempt env CenterFindById (\<lambda>w. (find (\<lambda>c. center_id c = i) (centers w), w)) w"

definition Center_findByIdAndUpdate_verified :: "env \<Rightarrow> string \<Rightarrow> world \<Rightarrow> center option io" where
  "Center_findByIdAndUpdate_verified env i w =
     attempt env CenterFindByIdAndUpdate
       (\<lambda>w. (case find (\<lambda>c. center_id c = i) (centers w) of
                None \<Rightarrow> (None, w)
              | Some c \<Rightarrow>
                  (Some (c\<lparr>verified := True\<rparr>),
                   w\<lparr>centers :=
                       map (\<lambda>c. if center_id c = i then c\<lparr>verified := True\<rparr> else c) (centers w)\<rparr>))) w"

definition Center_findByIdAndDelete :: "env \<Rightarrow> string \<Rightarrow> world \<Rightarrow> unit io" where
  "Center_findByIdAndDelete env i w =
     attempt env CenterFindByIdAndDelete
       (\<lambda>w. ((), w\<lparr>centers := filter (\<lambda>c. center_id c \<noteq> i) (centers w)\<rparr>)) w"

definition revalidatePath :: "env \<Rightarrow> world \<Rightarrow> unit io" where
  "revalidatePath env w = attempt env RevalidatePath (\<lambda>w. ((), w)) w"

subsection \<open>The identity provider adapter\<close>

text \<open>
  Modelled from the spec: the identity provider adapter (section 6: account creation
  giving an account handle with a unique id and email, email-verification dispatch,
  administrative account deletion), which lies outside the embedded files. Every request is
  recorded when it is made, before the provider answers or throws.
\<close>

definition auth_deleteUser :: "env \<Rightarrow> string \<Rightarrow> world \<Rightarrow> unit io" where
  "auth_deleteUser env u w =
     attempt env AuthDeleteUser
       (\<lambda>w. ((), w\<lparr>idp_accounts := filter (\<lambda>a. fb_uid a \<noteq> u) (idp_accounts w)\<rparr>))
       (w\<lparr>idp_calls := idp_calls w @ [DeleteUserCall u]\<rparr>)"

definition createUserWithEmailAndPassword ::
    "env \<Rightarrow> string \<Rightarrow> string \<Rightarrow> world \<Rightarrow> firebase_user io" where
  "createUserWithEmailAndPassword env em pw w =
     attempt env CreateUserWithEmailAndPassword
       (\<lambda>w. (created_user env, w\<lparr>idp_accounts := idp_accounts w @ [created_user env]\<rparr>))
       (w\<lparr>idp_calls := idp_calls w @ [CreateUserCall em pw]\<rparr>)"

definition sendEmailVerification :: "env \<Rightarrow> firebase_user \<Rightarrow> string \<Rightarrow> world \<Rightarrow> unit io" where
  "sendEmailVerification env fu url w =
     attempt env SendEmailVerification (\<lambda>w. ((), w))
       (w\<lparr>idp_calls := idp_calls w @ [SendVerificationCall (fb_uid fu) url]\<rparr>)"

text \<open>
  \<^verbatim>\<open>initializeFirebaseAdmin\<close>: when no admin app exists yet, one is initialised, from
  the service-account key when the variable is set and non-empty (a failure there is
  caught and logged), from the ambient credentials otherwise (a failure there is not
  caught); then \<^verbatim>\<open>admin.auth()\<close> is returned.
\<close>

definition initializeApp :: "env \<Rightarrow> world \<Rightarrow> unit io" where
  "initializeApp env w =
     attempt env InitializeApp (\<lambda>w. ((), w\<lparr>admin_apps := Suc (admin_apps w)\<rparr>)) w"

definition initializeFirebaseAdmin :: "env \<Rightarrow> world \<Rightarrow> unit io" where
  "initializeFirebaseAdmin env w =
     bnd (if admin_apps w = 0 then
            (case FIREBASE_ADMIN_KEY env of
               None \<Rightarrow> initializeApp env w
             | Some k \<Rightarrow>
                 if k = [] then initializeApp env w
                 else
                   (case bnd (attempt env JsonParse (\<lambda>w. ((), w)) w) (\<lambda>serviceAccount w.
                         bnd (attempt env CredentialCert (\<lambda>w. ((), w)) w) (\<lambda>credential w.
                         initializeApp env w)) of
                      (Inl e, w') \<Rightarrow> (Inr (), w')
                    | (Inr u, w') \<Rightarrow> (Inr (), w')))
          else (Inr (), w))
       (\<lambda>u w. attempt env AdminAuth (\<lambda>w. ((), w)) w)"

subsection \<open>Input schemas\<close>

definition z_string :: "jsval \<Rightarrow> string option" where
  "z_string v = (case v of JStr s \<Rightarrow> Some s | _ \<Rightarrow> None)"

definition z_enum_role :: "jsval \<Rightarrow> role option" where
  "z_enum_role v =
     (case v of
        JStr s \<Rightarrow>
          if s = ''citizen'' then Some Citizen
          else if s = ''authority'' then Some Authority
          else if s = ''center'' then Some CenterRole
          else None
      | _ \<Rightarrow> None)"

definition updateUserRoleSchema :: "jsval \<Rightarrow> (string \<times> role \<times> string) option" where
  "updateUserRoleSchema data =
     (case data of
        JObj kvs \<Rightarrow>
          (case z_string (js_get data ''targetUserId'') of
             None \<Rightarrow> None
           | Some targetUserId \<Rightarrow>
               (case z_enum_role (js_get data ''newRole'') of
                  None \<Rightarrow> None
                | Some newRole \<Rightarrow>
                    (case z_string (js_get data ''adminFirebaseUid'') of
                       None \<Rightarrow> None
                     | Some adminFirebaseUid \<Rightarrow> Some (targetUserId, newRole, adminFirebaseUid))))
      | _ \<Rightarrow> None)"

definition verifyCenterSchema :: "jsval \<Rightarrow> (string \<times> string) option" where
  "verifyCenterSchema data =
     (case data of
        JObj kvs \<Rightarrow>
          (case z_string (js_get data ''centerId'') of
             None \<Rightarrow> None
           | Some centerId \<Rightarrow>
               (case z_string (js_get data ''adminFirebaseUid'') of
                  None \<Rightarrow> None
                | Some adminFirebaseUid \<Rightarrow> Some (centerId, adminFirebaseUid)))
      | _ \<Rightarrow> None)"

definition rejectCenterSchema :: "jsval \<Rightarrow> (string \<times> string) option" where
  "rejectCenterSchema data = verifyCenterSchema data"

subsection \<open>The administrative actions\<close>





text \<open>The \<^verbatim>\<open>try\<close> block of \<^verbatim>\<open>updateUserRole\<close>, then the action with its validation and its \<^verbatim>\<open>catch\<close>.\<close>

definition updateUserRole_try :: "env \<Rightarrow> string \<Rightarrow> role \<Rightarrow> string \<Rightarrow> world \<Rightarrow> jsval io" where
  "updateUserRole_try env targetUserId newRole adminFirebaseUid w =
     bnd (dbConnect env w) (\<lambda>u w.
     bnd (User_findOne env adminFirebaseUid w) (\<lambda>adminUser w.
       (case adminUser of
          None \<Rightarrow> (Inr (failure ''Permission denied. Not an administrator.''), w)
        | Some adminUser \<Rightarrow>
            if role adminUser \<noteq> Authority
            then (Inr (failure ''Permission denied. Not an administrator.''), w)
            else
     bnd (User_findById env targetUserId w) (\<lambda>targetUser w.
       (case targetUser of
          None \<Rightarrow> (Inr (failure ''Target user not found.''), w)
        | Some targetUser \<Rightarrow>
            if firebaseUid adminUser = firebaseUid targetUser
            then (Inr (failure ''Administrators cannot change their own role.''), w)
            else
     bnd (User_save_role env (targetUser\<lparr>role := newRole\<rparr>) w) (\<lambda>u w.
     bnd (revalidatePath env w) (\<lambda>u w.
       (Inr success_result, w))))))))"

definition updateUserRole :: "env \<Rightarrow> jsval \<Rightarrow> world \<Rightarrow> jsval io" where
  "updateUserRole env data w =
     (case updateUserRoleSchema data of
        None \<Rightarrow> (Inr (failure ''Invalid input data.''), w)
      | Some (targetUserId, newRole, adminFirebaseUid) \<Rightarrow>
          (case updateUserRole_try env targetUserId newRole adminFirebaseUid w of
             (Inl error, w') \<Rightarrow>
               (Inr (failure ''An internal error occurred while updating the role.''), w')
           | (Inr r, w') \<Rightarrow> (Inr r, w')))"

definition verifyCenter_try :: "env \<Rightarrow> string \<Rightarrow> string \<Rightarrow> world \<Rightarrow> jsval io" where
  "verifyCenter_try env centerId adminFirebaseUid w =
     bnd (dbConnect env w) (\<lambda>u w.
     bnd (User_findOne env adminFirebaseUid w) (\<lambda>adminUser w.
       (case adminUser of
          None \<Rightarrow> (Inr (failure ''Permission denied. Not an administrator.''), w)
        | Some adminUser \<Rightarrow>
            if role adminUser \<noteq> Authority
            then (Inr (failure ''Permission denied. Not an administrator.''), w)
            else
     bnd (Center_findByIdAndUpdate_verified env centerId w) (\<lambda>center w.
       (case center of
          None \<Rightarrow> (Inr (failure ''Center not found.''), w)
        | Some center \<Rightarrow>
     bnd (revalidatePath env w) (\<lambda>u w.
       (Inr success_result, w)))))))"

definition verifyCenter :: "env \<Rightarrow> jsval \<Rightarrow> world \<Rightarrow> jsval io" where
  "verifyCenter env data w =
     (case verifyCenterSchema data of
        None \<Rightarrow> (Inr (failure ''Invalid input data.''), w)
      | Some (centerId, adminFirebaseUid) \<Rightarrow>
          (case verifyCenter_try env centerId adminFirebaseUid w of
             (Inl error, w') \<Rightarrow>
               (Inr (failure ''An internal error occurred while verifying the center.''), w')
           | (Inr r, w') \<Rightarrow> (Inr r, w')))"

text \<open>
  In \<^verbatim>\<open>rejectCenter\<close> the inner \<^verbatim>\<open>try\<close> holds only the guarded \<^verbatim>\<open>auth.deleteUser\<close>
  call (\<^verbatim>\<open>if (center.uid)\<close> is false for an absent and for an empty uid); its
  \<^verbatim>\<open>catch\<close> warns and goes on.
\<close>

definition rejectCenter_try :: "env \<Rightarrow> string \<Rightarrow> string \<Rightarrow> world \<Rightarrow> jsval io" where
  "rejectCenter_try env centerId adminFirebaseUid w =
     bnd (dbConnect env w) (\<lambda>u w.
     bnd (User_findOne env adminFirebaseUid w) (\<lambda>adminUser w.
       (case adminUser of
          None \<Rightarrow> (Inr (failure ''Permission denied. Not an administrator.''), w)
        | Some adminUser \<Rightarrow>
            if role adminUser \<noteq> Authority
            then (Inr (failure ''Permission denied. Not an administrator.''), w)
            else
     bnd (Center_findById env centerId w) (\<lambda>center w.
       (case center of
          None \<Rightarrow> (Inr (failure ''Center not found.''), w)
        | Some center \<Rightarrow>
     bnd (initializeFirebaseAdmin env w) (\<lambda>auth w.
     bnd (case (case uid center of
                  None \<Rightarrow> (Inr (), w)
                | Some u \<Rightarrow> if u = [] then (Inr (), w) else auth_deleteUser env u w) of
            (Inl authError, w') \<Rightarrow> (Inr (), w')
          | (Inr r, w') \<Rightarrow> (Inr r, w')) (\<lambda>u w.
     bnd (Center_findByIdAndDelete env centerId w) (\<lambda>u w.
     bnd (revalidatePath env w) (\<lambda>u w.
       (Inr success_result, w))))))))))"

definition rejectCenter :: "env \<Rightarrow> jsval \<Rightarrow> world \<Rightarrow> jsval io" where
  "rejectCenter env data w =
     (case rejectCenterSchema data of
        None \<Rightarrow> (Inr (failure ''Invalid input data.''), w)
      | Some (centerId, adminFirebaseUid) \<Rightarrow>
          (case rejectCenter_try env centerId adminFirebaseUid w of
             (Inl error, w') \<Rightarrow>
               (Inr (failure ''An internal error occurred while rejecting the center.''), w')
           | (Inr r, w') \<Rightarrow> (Inr r, w')))"

subsection \<open>The signup action\<close>

record SignupFormData =
  form_firstName :: string
  form_lastName :: string
  form_email :: string
  form_password :: string

text \<open>
  Modelled from the spec: the User schema (\<^verbatim>\<open>@/models/User\<close> is outside the embedded files).
  Section 3 of the specification lists the fields of a User, the defaults
  \<^verbatim>\<open>role = citizen\<close> and \<^verbatim>\<open>emailVerified = false\<close>, and a store-assigned id;
  \<^verbatim>\<open>__v\<close> is the store's version key, 0 on a new document.
\<close>

definition new_User :: "env \<Rightarrow> string \<Rightarrow> string \<Rightarrow> string \<Rightarrow> string \<Rightarrow> string \<Rightarrow> bool \<Rightarrow> user" where
  "new_User env fuid em fn ln dn ev =
     \<lparr>user_id = new_object_id env, firebaseUid = fuid, email = em, firstName = fn,
      lastName = ln, displayName = dn, role = Citizen, emailVerified = ev, user_v = 0\<rparr>"

text \<open>
  Modelled from the spec: \<^verbatim>\<open>toObject()\<close> of a saved User, the fields of the schema
  above as a plain object, \<^verbatim>\<open>_id\<close> first and \<^verbatim>\<open>__v\<close> last.
\<close>

definition toObject :: "user \<Rightarrow> (string \<times> jsval) list" where
  "toObject u =
     [(''_id'', JStr (user_id u)), (''firebaseUid'', JStr (firebaseUid u)),
      (''email'', JStr (email u)), (''firstName'', JStr (firstName u)),
      (''lastName'', JStr (lastName u)), (''displayName'', JStr (displayName u)),
      (''role'', JStr (role_name (role u))), (''emailVerified'', JBool (emailVerified u)),
      (''__v'', JNum (user_v u))]"

text \<open>The template literal \<^verbatim>\<open>`${process.env.NEXT_PUBLIC_BASE_URL}/login`\<close>.\<close>

definition login_url :: "env \<Rightarrow> string" where
  "login_url env =
     (case NEXT_PUBLIC_BASE_URL env of None \<Rightarrow> ''undefined'' | Some b \<Rightarrow> b) @ ''/login''"

definition signup_try :: "env \<Rightarrow> SignupFormData \<Rightarrow> world \<Rightarrow> jsval io" where
  "signup_try env formData w =
     bnd (attempt env GetAuth (\<lambda>w. ((), w)) w) (\<lambda>auth w.
     bnd (createUserWithEmailAndPassword env (form_email formData) (form_password formData) w)
       (\<lambda>firebaseUser w.
     bnd (sendEmailVerification env firebaseUser (login_url env) w) (\<lambda>u w.
     bnd (dbConnect env w) (\<lambda>u w.
       (let newUser =
              new_User env (fb_uid firebaseUser) (fb_email firebaseUser)
                (form_firstName formData) (form_lastName formData)
                (form_firstName formData @ '' '' @ form_lastName formData) False
        in
     bnd (User_save_new env newUser w) (\<lambda>u w.
       (let userObject = toObject newUser;
            userWithoutSensitiveData =
              filter (\<lambda>kv. fst kv \<noteq> ''_id'' \<and> fst kv \<noteq> ''__v'') userObject
        in (Inr (JObj [(''success'', JBool True), (''user'', JObj userWithoutSensitiveData)]),
            w))))))))"

text \<open>The \<^verbatim>\<open>catch\<close> block of \<^verbatim>\<open>signup\<close>: the message chosen from \<^verbatim>\<open>error.code\<close>.\<close>

definition signup_errorMessage :: "exn \<Rightarrow> string" where
  "signup_errorMessage error =
     (if err_code error = JStr ''auth/email-already-in-use''
      then ''A user with this email already exists.''
      else if err_code error = JStr ''auth/weak-password''
      then ''The password is too weak. Please choose a stronger password.''
      else ''An unexpected error occurred during signup.'')"

definition signup :: "env \<Rightarrow> SignupFormData \<Rightarrow> world \<Rightarrow> jsval io" where
  "signup env formData w =
     (case signup_try env formData w of
        (Inl error, w') \<Rightarrow> (Inr (failure (signup_errorMessage error)), w')
      | (Inr r, w') \<Rightarrow> (Inr r, w'))"

text \<open>
  The server action as its caller reaches it. \<^verbatim>\<open>signup\<close> has no runtime schema
  (line 10 says that no Zod schema is needed), and its first statement, the destructuring
  \<^verbatim>\<open>const { firstName, lastName, email, password } = formData\<close>, stands before the
  \<^verbatim>\<open>try\<close>: for an argument that is \<^verbatim>\<open>null\<close> or \<^verbatim>\<open>undefined\<close> it throws a
  TypeError, which no handler of the action catches. For an argument of the declared
  shape the action is \<^verbatim>\<open>signup\<close> above. Arguments of any other shape are left out:
  what the constructor of \<^verbatim>\<open>User\<close> makes of a field that is not a string is decided
  by the schema, outside the embedded files.
\<close>

datatype signup_argument = Undefined_argument | Null_argument | FormData SignupFormData

definition destructuring_TypeError :: exn where
  "destructuring_TypeError =
     \<lparr>err_code = JUndefined,
      err_message = ''Cannot destructure property firstName of formData''\<rparr>"

definition signup_action :: "env \<Rightarrow> signup_argument \<Rightarrow> world \<Rightarrow> jsval io" where
  "signup_action env arg w =
     (case arg of
        Undefined_argument \<Rightarrow> (Inl destructuring_TypeError, w)
      | Null_argument \<Rightarrow> (Inl destructuring_TypeError, w)
      | FormData formData \<Rightarrow> signup env formData w)"

subsection \<open>Predicates of the statements\<close>

text \<open>
  The stored user that an identity-provider id resolves to has role \<^verbatim>\<open>authority\<close>: the
  condition that the guard of the privileged actions tests on the result of
  \<^verbatim>\<open>User.findOne({ firebaseUid })\<close>.
\<close>

definition is_administrator :: "world \<Rightarrow> string \<Rightarrow> bool" where
  "is_administrator w a =
     (case find (\<lambda>u. firebaseUid u = a) (users w) of
        None \<Rightarrow> False
      | Some u \<Rightarrow> role u = Authority)"

text \<open>
  An action that returns an envelope to its caller, and a \<^verbatim>\<open>try\<close> block that either
  throws (into the \<^verbatim>\<open>catch\<close> of its action) or returns an envelope.
\<close>

definition returns_envelope :: "jsval io \<Rightarrow> bool" where
  "returns_envelope m = (case fst m of Inl e \<Rightarrow> False | Inr r \<Rightarrow> is_envelope r)"

definition throws_or_envelope :: "jsval io \<Rightarrow> bool" where
  "throws_or_envelope m = (case fst m of Inl e \<Rightarrow> True | Inr r \<Rightarrow> is_envelope r)"

subsection \<open>A small deployment for the concrete instances\<close>

definition provider_error :: "string \<Rightarrow> exn" where
  "provider_error c = \<lparr>err_code = JStr c, err_message = ''Firebase: Error ('' @ c @ '').''\<rparr>"

definition env_ok :: env where
  "env_ok =
     \<lparr>faults = (\<lambda>c. None), FIREBASE_ADMIN_KEY = None,
      NEXT_PUBLIC_BASE_URL = Some ''https://vaxsys.example'',
      created_user = \<lparr>fb_uid = ''N1'', fb_email = ''nadia@vaxsys.example''\<rparr>,
      new_object_id = ''U3''\<rparr>"

definition env_failing :: "extcall \<Rightarrow> exn \<Rightarrow> env" where
  "env_failing c e = env_ok\<lparr>faults := (\<lambda>x. if x = c then Some e else None)\<rparr>"

text \<open>
  The service-account key is set but is not valid JSON: \<^verbatim>\<open>JSON.parse\<close> throws, no admin
  app is initialised, and \<^verbatim>\<open>admin.auth()\<close> throws for want of an app.
\<close>

definition env_bad_admin_key :: env where
  "env_bad_admin_key =
     env_ok\<lparr>faults := (\<lambda>x. if x = JsonParse then Some (provider_error ''SyntaxError'')
                          else if x = AdminAuth then Some (provider_error ''app/no-app'')
                          else None),
            FIREBASE_ADMIN_KEY := Some ''not json''\<rparr>"

definition admin_A1 :: user where
  "admin_A1 =
     \<lparr>user_id = ''U1'', firebaseUid = ''A1'', email = ''ada@vaxsys.example'', firstName = ''Ada'',
      lastName = ''Admin'', displayName = ''Ada Admin'', role = Authority, emailVerified = True,
      user_v = 0\<rparr>"

definition citizen_C1 :: user where
  "citizen_C1 =
     \<lparr>user_id = ''U2'', firebaseUid = ''C1'', email = ''cy@vaxsys.example'', firstName = ''Cy'',
      lastName = ''Citizen'', displayName = ''Cy Citizen'', role = Citizen, emailVerified = False,
      user_v = 0\<rparr>"

definition center_X :: center where
  "center_X =
     \<lparr>center_id = ''X'', uid = Some ''firebase-123'', center_name = ''North Clinic'',
      center_email = ''north@vaxsys.example'', district = ''North'', address = ''1 Main Road'',
      verified = False\<rparr>"

definition center_Y :: center where
  "center_Y =
     \<lparr>center_id = ''Y'', uid = None, center_name = ''South Clinic'',
      center_email = ''south@vaxsys.example'', district = ''South'', address = ''2 Lake Road'',
      verified = False\<rparr>"

definition world0 :: world where
  "world0 =
     \<lparr>users = [admin_A1, citizen_C1], centers = [center_X, center_Y], admin_apps = 0,
      idp_accounts = [\<lparr>fb_uid = ''A1'', fb_email = ''ada@vaxsys.example''\<rparr>,
                      \<lparr>fb_uid = ''C1'', fb_email = ''cy@vaxsys.example''\<rparr>,
                      \<lparr>fb_uid = ''firebase-123'', fb_email = ''north@vaxsys.example''\<rparr>],
      idp_calls = []\<rparr>"

definition role_request :: "string \<Rightarrow> string \<Rightarrow> string \<Rightarrow> jsval" where
  "role_request t r a =
     JObj [(''targetUserId'', JStr t), (''newRole'', JStr r), (''adminFirebaseUid'', JStr a)]"

definition center_request :: "string \<Rightarrow> string \<Rightarrow> jsval" where
  "center_request c a = JObj [(''centerId'', JStr c), (''adminFirebaseUid'', JStr a)]"

definition form0 :: SignupFormData where
  "form0 =
     \<lparr>form_firstName = ''Nadia'', form_lastName = ''Rahman'',
      form_email = ''nadia@vaxsys.example'', form_password = ''correct horse''\<rparr>"

section \<open>Properties\<close>

subsection \<open>Sequencing, collaborator calls, list lemmas\<close>

lemma bnd_Inl: "bnd (Inl e, w) f = (Inl e, w)"
  by (simp add: bnd_def)

lemma bnd_Inr: "bnd (Inr a, w) f = f a w"
  by (simp add: bnd_def)

lemma attempt_returns:
  "faults env c = None \<Longrightarrow> attempt env c k w = (Inr (fst (k w)), snd (k w))"
  by (simp add: attempt_def split: prod.splits)

lemma attempt_throws: "faults env c = Some e \<Longrightarrow> attempt env c k w = (Inl e, w)"
  by (simp add: attempt_def)

lemmas store_defs = dbConnect_def User_findOne_def User_findById_def User_save_role_def
  User_save_new_def Center_findById_def Center_findByIdAndUpdate_verified_def
  Center_findByIdAndDelete_def revalidatePath_def

lemmas deployment_defs = provider_error_def env_ok_def env_failing_def env_bad_admin_key_def
  admin_A1_def citizen_C1_def center_X_def center_Y_def world0_def role_request_def
  center_request_def form0_def

lemmas schema_defs = updateUserRoleSchema_def verifyCenterSchema_def rejectCenterSchema_def
  z_string_def z_enum_role_def js_get_def

lemma find_Some_holds: "find P xs = Some x \<Longrightarrow> P x \<and> x \<in> set xs"
  by (induction xs) (auto split: if_splits)

lemma map_verified_idem:
  "map (\<lambda>c. if center_id c = i then c\<lparr>verified := True\<rparr> else c)
     (map (\<lambda>c. if center_id c = i then c\<lparr>verified := True\<rparr> else c) xs) =
   map (\<lambda>c. if center_id c = i then c\<lparr>verified := True\<rparr> else c) xs"
  by (induction xs) auto

lemma find_map_verified:
  "find (\<lambda>c. center_id c = i)
     (map (\<lambda>c. if center_id c = i then c\<lparr>verified := True\<rparr> else c) xs) =
   map_option (\<lambda>c. c\<lparr>verified := True\<rparr>) (find (\<lambda>c. center_id c = i) xs)"
  by (induction xs) auto

subsection \<open>The precondition checks of updateUserRole\<close>

lemma updateUserRole_invalid:
  "updateUserRoleSchema data = None \<Longrightarrow>
     updateUserRole env data w = (Inr (failure ''Invalid input data.''), w)"
  by (simp add: updateUserRole_def)

lemma updateUserRole_denied:
  assumes "updateUserRoleSchema data = Some (t, r, a)"
    and "faults env DbConnect = None" and "faults env UserFindOne = None"
    and "\<not> is_administrator w a"
  shows "updateUserRole env data w =
           (Inr (failure ''Permission denied. Not an administrator.''), w)"
  using assms
  by (simp add: updateUserRole_def updateUserRole_try_def store_defs attempt_returns bnd_Inr
      is_administrator_def split: option.splits)

lemma updateUserRole_not_found:
  assumes "updateUserRoleSchema data = Some (t, r, a)"
    and "faults env DbConnect = None" and "faults env UserFindOne = None"
    and "is_administrator w a"
    and "faults env UserFindById = None"
    and "find (\<lambda>u. user_id u = t) (users w) = None"
  shows "updateUserRole env data w = (Inr (failure ''Target user not found.''), w)"
  using assms
  by (simp add: updateUserRole_def updateUserRole_try_def store_defs attempt_returns bnd_Inr
      is_administrator_def split: option.splits)

lemma updateUserRole_self:
  assumes "updateUserRoleSchema data = Some (t, r, a)"
    and "faults env DbConnect = None" and "faults env UserFindOne = None"
    and "find (\<lambda>u. firebaseUid u = a) (users w) = Some adminUser"
    and "role adminUser = Authority"
    and "faults env UserFindById = None"
    and "find (\<lambda>u. user_id u = t) (users w) = Some targetUser"
    and "firebaseUid targetUser = firebaseUid adminUser"
  shows "updateUserRole env data w =
           (Inr (failure ''Administrators cannot change their own role.''), w)"
  using assms
  by (simp add: updateUserRole_def updateUserRole_try_def store_defs attempt_returns bnd_Inr
      split: option.splits)

text \<open>
  Claim C4. \<^verbatim>\<open>updateUserRole\<close> checks its preconditions in this order and returns the
  error of the first check that fails, leaving the world as it was: (a) an input that
  does not match the schema gets the validation error, whatever the store holds;
  (b) a valid input whose actor is not a stored user of role authority gets the
  permission error, whether or not the target exists or is the actor; (c) with an
  authorised actor, a missing target gets the not-found error; (d) with an authorised
  actor and an existing target, a target that is the actor gets the self-modification
  error. A check fails when the store call that evaluates it has returned and its
  condition is false.
\<close>

theorem updateUserRole_precondition_order:
  "(updateUserRoleSchema data = None \<longrightarrow>
      updateUserRole env data w = (Inr (failure ''Invalid input data.''), w))
 \<and> (updateUserRoleSchema data = Some (t, r, a) \<and> faults env DbConnect = None
      \<and> faults env UserFindOne = None \<and> \<not> is_administrator w a \<longrightarrow>
      updateUserRole env data w =
        (Inr (failure ''Permission denied. Not an administrator.''), w))
 \<and> (updateUserRoleSchema data = Some (t, r, a) \<and> faults env DbConnect = None
      \<and> faults env UserFindOne = None \<and> is_administrator w a
      \<and> faults env UserFindById = None
      \<and> find (\<lambda>u. user_id u = t) (users w) = None \<longrightarrow>
      updateUserRole env data w = (Inr (failure ''Target user not found.''), w))
 \<and> (updateUserRoleSchema data = Some (t, r, a) \<and> faults env DbConnect = None
      \<and> faults env UserFindOne = None
      \<and> find (\<lambda>u. firebaseUid u = a) (users w) = Some adminUser
      \<and> role adminUser = Authority
      \<and> faults env UserFindById = None
      \<and> find (\<lambda>u. user_id u = t) (users w) = Some targetUser
      \<and> firebaseUid targetUser = firebaseUid adminUser \<longrightarrow>
      updateUserRole env data w =
        (Inr (failure ''Administrators cannot change their own role.''), w))"
proof (intro conjI impI)
  assume "updateUserRoleSchema data = None"
  then show "updateUserRole env data w = (Inr (failure ''Invalid input data.''), w)"
    by (rule updateUserRole_invalid)
next
  assume "updateUserRoleSchema data = Some (t, r, a) \<and> faults env DbConnect = None
      \<and> faults env UserFindOne = None \<and> \<not> is_administrator w a"
  then show "updateUserRole env data w =
        (Inr (failure ''Permission denied. Not an administrator.''), w)"
    by (simp add: updateUserRole_denied)
next
  assume "updateUserRoleSchema data = Some (t, r, a) \<and> faults env DbConnect = None
      \<and> faults env UserFindOne = None \<and> is_administrator w a
      \<and> faults env UserFindById = None
      \<and> find (\<lambda>u. user_id u = t) (users w) = None"
  then show "updateUserRole env data w = (Inr (failure ''Target user not found.''), w)"
    by (simp add: updateUserRole_not_found)
next
  assume "updateUserRoleSchema data = Some (t, r, a) \<and> faults env DbConnect = None
      \<and> faults env UserFindOne = None
      \<and> find (\<lambda>u. firebaseUid u = a) (users w) = Some adminUser
      \<and> role adminUser = Authority
      \<and> faults env UserFindById = None
      \<and> find (\<lambda>u. user_id u = t) (users w) = Some targetUser
      \<and> firebaseUid targetUser = firebaseUid adminUser"
  then show "updateUserRole env data w =
        (Inr (failure ''Administrators cannot change their own role.''), w)"
    by (simp add: updateUserRole_self [where adminUser = adminUser and targetUser = targetUser])
qed

text \<open>
  The four checks at work in the small deployment: a role outside the enumeration, the
  citizen C1 as actor (on a target that does not exist), the administrator A1 on a
  missing target, and A1 on their own record.
\<close>

theorem updateUserRole_precondition_order_witness:
  "updateUserRole env_ok (role_request ''U2'' ''admin'' ''C1'') world0 =
     (Inr (failure ''Invalid input data.''), world0)
 \<and> updateUserRole env_ok (role_request ''U9'' ''center'' ''C1'') world0 =
     (Inr (failure ''Permission denied. Not an administrator.''), world0)
 \<and> updateUserRole env_ok (role_request ''U9'' ''center'' ''A1'') world0 =
     (Inr (failure ''Target user not found.''), world0)
 \<and> updateUserRole env_ok (role_request ''U1'' ''center'' ''A1'') world0 =
     (Inr (failure ''Administrators cannot change their own role.''), world0)"
  using
    updateUserRole_precondition_order [where env = env_ok and w = world0
      and data = "role_request ''U2'' ''admin'' ''C1''" and t = "''U2''" and r = Citizen
      and a = "''C1''" and adminUser = admin_A1 and targetUser = admin_A1]
    updateUserRole_precondition_order [where env = env_ok and w = world0
      and data = "role_request ''U9'' ''center'' ''C1''" and t = "''U9''" and r = CenterRole
      and a = "''C1''" and adminUser = admin_A1 and targetUser = admin_A1]
    updateUserRole_precondition_order [where env = env_ok and w = world0
      and data = "role_request ''U9'' ''center'' ''A1''" and t = "''U9''" and r = CenterRole
      and a = "''A1''" and adminUser = admin_A1 and targetUser = admin_A1]
    updateUserRole_precondition_order [where env = env_ok and w = world0
      and data = "role_request ''U1'' ''center'' ''A1''" and t = "''U1''" and r = CenterRole
      and a = "''A1''" and adminUser = admin_A1 and targetUser = admin_A1]
  by (simp add: deployment_defs schema_defs is_administrator_def)

text \<open>
  Claim C5. When the input is valid, the actor is an authorised administrator, the
  target exists (the three lookups having returned), and the target's identity-provider
  id is the actor's, \<^verbatim>\<open>updateUserRole\<close> returns the self-modification failure for any
  requested role and leaves the world, so the actor's stored role, unchanged.
\<close>

theorem updateUserRole_rejects_self_modification:
  assumes valid: "updateUserRoleSchema data = Some (t, newRole, a)"
    and evaluated: "faults env DbConnect = None" "faults env UserFindOne = None"
      "faults env UserFindById = None"
    and authorised: "find (\<lambda>u. firebaseUid u = a) (users w) = Some adminUser"
      "role adminUser = Authority"
    and exists: "find (\<lambda>u. user_id u = t) (users w) = Some targetUser"
    and self: "firebaseUid targetUser = a"
  shows "fst (updateUserRole env data w) =
           Inr (failure ''Administrators cannot change their own role.'')
       \<and> snd (updateUserRole env data w) = w
       \<and> map_option role (find (\<lambda>u. firebaseUid u = a) (users (snd (updateUserRole env data w)))) =
           Some Authority"
proof -
  from authorised(1) have "firebaseUid adminUser = a"
    by (auto dest: find_Some_holds)
  with self have same: "firebaseUid targetUser = firebaseUid adminUser"
    by simp
  have "updateUserRole env data w =
          (Inr (failure ''Administrators cannot change their own role.''), w)"
    using valid evaluated(1,2) authorised evaluated(3) exists same
    by (rule updateUserRole_self)
  with authorised show ?thesis
    by simp
qed

text \<open>The administrator A1 asks for each of the three roles on their own record U1.\<close>

theorem updateUserRole_rejects_self_modification_witness:
  "updateUserRole env_ok (role_request ''U1'' ''citizen'' ''A1'') world0 =
     (Inr (failure ''Administrators cannot change their own role.''), world0)
 \<and> updateUserRole env_ok (role_request ''U1'' ''authority'' ''A1'') world0 =
     (Inr (failure ''Administrators cannot change their own role.''), world0)
 \<and> updateUserRole env_ok (role_request ''U1'' ''center'' ''A1'') world0 =
     (Inr (failure ''Administrators cannot change their own role.''), world0)"
  using
    updateUserRole_rejects_self_modification [where env = env_ok and w = world0
      and data = "role_request ''U1'' ''citizen'' ''A1''" and t = "''U1''" and newRole = Citizen
      and a = "''A1''" and adminUser = admin_A1 and targetUser = admin_A1]
    updateUserRole_rejects_self_modification [where env = env_ok and w = world0
      and data = "role_request ''U1'' ''authority'' ''A1''" and t = "''U1''"
      and newRole = Authority and a = "''A1''" and adminUser = admin_A1
      and targetUser = admin_A1]
    updateUserRole_rejects_self_modification [where env = env_ok and w = world0
      and data = "role_request ''U1'' ''center'' ''A1''" and t = "''U1''"
      and newRole = CenterRole and a = "''A1''" and adminUser = admin_A1
      and targetUser = admin_A1]
  by (simp add: deployment_defs schema_defs prod_eq_iff)

subsection \<open>Authorisation of the privileged actions\<close>

lemma verifyCenter_denied:
  assumes "verifyCenterSchema data = Some (c, a)"
    and "faults env DbConnect = None" and "faults env UserFindOne = None"
    and "\<not> is_administrator w a"
  shows "verifyCenter env data w =
           (Inr (failure ''Permission denied. Not an administrator.''), w)"
  using assms
  by (simp add: verifyCenter_def verifyCenter_try_def store_defs attempt_returns bnd_Inr
      is_administrator_def split: option.splits)

lemma rejectCenter_denied:
  assumes "rejectCenterSchema data = Some (c, a)"
    and "faults env DbConnect = None" and "faults env UserFindOne = None"
    and "\<not> is_administrator w a"
  shows "rejectCenter env data w =
           (Inr (failure ''Permission denied. Not an administrator.''), w)"
  using assms
  by (simp add: rejectCenter_def rejectCenter_try_def store_defs attempt_returns bnd_Inr
      is_administrator_def split: option.splits)

text \<open>
  Without an authorised actor no action gets past its guard, so the world stays as it
  was even when the connection or the lookup throws.
\<close>

lemma updateUserRole_try_frame:
  "\<not> is_administrator w a \<Longrightarrow> snd (updateUserRole_try env t r a w) = w"
  by (cases "faults env DbConnect"; cases "faults env UserFindOne")
    (simp_all add: updateUserRole_try_def store_defs attempt_returns attempt_throws bnd_Inr
      bnd_Inl is_administrator_def split: option.splits)

lemma verifyCenter_try_frame:
  "\<not> is_administrator w a \<Longrightarrow> snd (verifyCenter_try env c a w) = w"
  by (cases "faults env DbConnect"; cases "faults env UserFindOne")
    (simp_all add: verifyCenter_try_def store_defs attempt_returns attempt_throws bnd_Inr
      bnd_Inl is_administrator_def split: option.splits)

lemma rejectCenter_try_frame:
  "\<not> is_administrator w a \<Longrightarrow> snd (rejectCenter_try env c a w) = w"
  by (cases "faults env DbConnect"; cases "faults env UserFindOne")
    (simp_all add: rejectCenter_try_def store_defs attempt_returns attempt_throws bnd_Inr
      bnd_Inl is_administrator_def split: option.splits)

lemma snd_catch:
  "snd (case m of (Inl e, w') \<Rightarrow> (Inr (h e), w') | (Inr r, w') \<Rightarrow> (Inr r, w')) = snd m"
  by (cases m; cases "fst m") auto

text \<open>
  Claim C1, as stated, fails: a call whose actor is the citizen C1 but whose requested
  role is outside the enumeration is turned away by the schema check, which comes
  before the actor is looked up; the result is the validation failure, not a permission
  failure.
\<close>

theorem non_administrator_gets_validation_failure:
  "\<not> is_administrator world0 ''C1''
 \<and> js_get (role_request ''U1'' ''admin'' ''C1'') ''adminFirebaseUid'' = JStr ''C1''
 \<and> updateUserRole env_ok (role_request ''U1'' ''admin'' ''C1'') world0 =
     (Inr (failure ''Invalid input data.''), world0)
 \<and> failure ''Invalid input data.'' \<noteq> failure ''Permission denied. Not an administrator.''"
  by (simp add: deployment_defs schema_defs is_administrator_def updateUserRole_def failure_def)

text \<open>
  Claim C1, amended. Let the actor's id not resolve to a stored user of role authority.
  Then each privileged action called with a schema-valid input leaves the world
  unchanged, and returns the permission failure once the store connection and the
  lookup of the actor have returned; a call whose input fails the schema returns the
  validation failure and changes nothing either.
\<close>

theorem non_administrators_are_denied:
  assumes actor: "\<not> is_administrator w a"
  shows "(updateUserRoleSchema d1 = Some (t, r, a) \<longrightarrow>
            snd (updateUserRole env d1 w) = w
          \<and> (faults env DbConnect = None \<and> faults env UserFindOne = None \<longrightarrow>
               fst (updateUserRole env d1 w) =
                 Inr (failure ''Permission denied. Not an administrator.'')))
       \<and> (verifyCenterSchema d2 = Some (c2, a) \<longrightarrow>
            snd (verifyCenter env d2 w) = w
          \<and> (faults env DbConnect = None \<and> faults env UserFindOne = None \<longrightarrow>
               fst (verifyCenter env d2 w) =
                 Inr (failure ''Permission denied. Not an administrator.'')))
       \<and> (rejectCenterSchema d3 = Some (c3, a) \<longrightarrow>
            snd (rejectCenter env d3 w) = w
          \<and> (faults env DbConnect = None \<and> faults env UserFindOne = None \<longrightarrow>
               fst (rejectCenter env d3 w) =
                 Inr (failure ''Permission denied. Not an administrator.'')))
       \<and> (updateUserRoleSchema d1 = None \<longrightarrow>
            updateUserRole env d1 w = (Inr (failure ''Invalid input data.''), w))
       \<and> (verifyCenterSchema d2 = None \<longrightarrow>
            verifyCenter env d2 w = (Inr (failure ''Invalid input data.''), w))
       \<and> (rejectCenterSchema d3 = None \<longrightarrow>
            rejectCenter env d3 w = (Inr (failure ''Invalid input data.''), w))"
proof (intro conjI impI)
  assume v: "updateUserRoleSchema d1 = Some (t, r, a)"
  show "snd (updateUserRole env d1 w) = w"
    using v updateUserRole_try_frame [OF actor, of env t r]
    by (simp add: updateUserRole_def snd_catch)
  assume "faults env DbConnect = None \<and> faults env UserFindOne = None"
  with v actor show "fst (updateUserRole env d1 w) =
      Inr (failure ''Permission denied. Not an administrator.'')"
    by (simp add: updateUserRole_denied)
next
  assume v: "verifyCenterSchema d2 = Some (c2, a)"
  show "snd (verifyCenter env d2 w) = w"
    using v verifyCenter_try_frame [OF actor, of env c2]
    by (simp add: verifyCenter_def snd_catch)
  assume "faults env DbConnect = None \<and> faults env UserFindOne = None"
  with v actor show "fst (verifyCenter env d2 w) =
      Inr (failure ''Permission denied. Not an administrator.'')"
    by (simp add: verifyCenter_denied)
next
  assume v: "rejectCenterSchema d3 = Some (c3, a)"
  show "snd (rejectCenter env d3 w) = w"
    using v rejectCenter_try_frame [OF actor, of env c3]
    by (simp add: rejectCenter_def snd_catch)
  assume "faults env DbConnect = None \<and> faults env UserFindOne = None"
  with v actor show "fst (rejectCenter env d3 w) =
      Inr (failure ''Permission denied. Not an administrator.'')"
    by (simp add: rejectCenter_denied)
next
  assume "updateUserRoleSchema d1 = None"
  then show "updateUserRole env d1 w = (Inr (failure ''Invalid input data.''), w)"
    by (simp add: updateUserRole_def)
next
  assume "verifyCenterSchema d2 = None"
  then show "verifyCenter env d2 w = (Inr (failure ''Invalid input data.''), w)"
    by (simp add: verifyCenter_def)
next
  assume "rejectCenterSchema d3 = None"
  then show "rejectCenter env d3 w = (Inr (failure ''Invalid input data.''), w)"
    by (simp add: rejectCenter_def)
qed

text \<open>
  The citizen C1 calls the three actions with valid inputs: on the user U1, and on the
  center X (the scenario of the specification), which keeps \<^verbatim>\<open>verified = false\<close>.
  C1 is also turned away, with nothing changed, while the store cannot be reached, and
  when the requested role is outside the enumeration.
\<close>

theorem non_administrators_are_denied_witness:
  "updateUserRole env_ok (role_request ''U1'' ''citizen'' ''C1'') world0 =
     (Inr (failure ''Permission denied. Not an administrator.''), world0)
 \<and> verifyCenter env_ok (center_request ''X'' ''C1'') world0 =
     (Inr (failure ''Permission denied. Not an administrator.''), world0)
 \<and> rejectCenter env_ok (center_request ''X'' ''C1'') world0 =
     (Inr (failure ''Permission denied. Not an administrator.''), world0)
 \<and> map_option verified (find (\<lambda>c. center_id c = ''X'') (centers world0)) = Some False
 \<and> snd (verifyCenter (env_failing DbConnect (provider_error ''ECONNREFUSED''))
          (center_request ''X'' ''C1'') world0) = world0
 \<and> updateUserRole env_ok (role_request ''U1'' ''admin'' ''C1'') world0 =
     (Inr (failure ''Invalid input data.''), world0)"
  using
    non_administrators_are_denied [where env = env_ok and w = world0 and a = "''C1''"
      and ?d1.0 = "role_request ''U1'' ''citizen'' ''C1''" and t = "''U1''" and r = Citizen
      and ?d2.0 = "center_request ''X'' ''C1''" and ?c2.0 = "''X''"
      and ?d3.0 = "center_request ''X'' ''C1''" and ?c3.0 = "''X''"]
    non_administrators_are_denied [where env = "env_failing DbConnect (provider_error ''ECONNREFUSED'')"
      and w = world0 and a = "''C1''"
      and ?d1.0 = "role_request ''U1'' ''admin'' ''C1''" and t = "''U1''" and r = Citizen
      and ?d2.0 = "center_request ''X'' ''C1''" and ?c2.0 = "''X''"
      and ?d3.0 = "center_request ''X'' ''C1''" and ?c3.0 = "''X''"]
    non_administrators_are_denied [where env = env_ok and w = world0 and a = "''C1''"
      and ?d1.0 = "role_request ''U1'' ''admin'' ''C1''" and t = "''U1''" and r = Citizen
      and ?d2.0 = "center_request ''X'' ''C1''" and ?c2.0 = "''X''"
      and ?d3.0 = "center_request ''X'' ''C1''" and ?c3.0 = "''X''"]
  by (simp add: deployment_defs schema_defs is_administrator_def prod_eq_iff)

subsection \<open>The effect of a successful role change\<close>

text \<open>What a returning block tells about its steps.\<close>

lemma bnd_returnsE:
  assumes "bnd m f = (Inr r, w'')"
  obtains x w' where "m = (Inr x, w')" and "f x w' = (Inr r, w'')"
  using assms by (cases m; cases "fst m") (auto simp: bnd_def)

lemma attempt_returnsD:
  "attempt env c k w = (Inr x, w') \<Longrightarrow> faults env c = None \<and> k w = (x, w')"
  by (cases "faults env c") (auto simp: attempt_def split: prod.splits)

lemma catch_returnsD:
  "(case m of (Inl e, w') \<Rightarrow> (Inr (failure (h e)), w') | (Inr r, w') \<Rightarrow> (Inr r, w')) =
     (Inr success_result, w'') \<Longrightarrow> m = (Inr success_result, w'')"
  by (cases m; cases "fst m") (auto simp: failure_def success_result_def)

lemma updateUserRole_try_success:
  assumes "updateUserRole_try env t newRole a w = (Inr success_result, w')"
  shows "w' = w\<lparr>users := map (\<lambda>u. if user_id u = t then u\<lparr>role := newRole\<rparr> else u) (users w)\<rparr>"
  using assms unfolding updateUserRole_try_def store_defs
  by (auto simp: failure_def success_result_def elim!: bnd_returnsE
      dest!: attempt_returnsD find_Some_holds split: option.splits if_splits)

lemma updateUserRole_success_effect:
  assumes valid: "updateUserRoleSchema data = Some (t, newRole, a)"
    and ok: "fst (updateUserRole env data w) = Inr success_result"
  shows "snd (updateUserRole env data w) =
      w\<lparr>users := map (\<lambda>u. if user_id u = t then u\<lparr>role := newRole\<rparr> else u) (users w)\<rparr>"
proof -
  obtain w' where r: "updateUserRole env data w = (Inr success_result, w')"
    using ok by (cases "updateUserRole env data w") auto
  with valid have "updateUserRole_try env t newRole a w = (Inr success_result, w')"
    by (auto simp: updateUserRole_def dest: catch_returnsD)
  from updateUserRole_try_success [OF this] r show ?thesis by simp
qed

text \<open>
  Claim C9. When \<^verbatim>\<open>updateUserRole\<close> succeeds, the stored users are the former ones
  with the role of the record whose id is the target id set to the requested role:
  every other field of that record (id, firebaseUid, email, names, displayName,
  emailVerified, version) and every other user are as before, and so are the centers
  and the accounts and requests at the identity provider.
\<close>

theorem updateUserRole_changes_only_the_role:
  assumes valid: "updateUserRoleSchema data = Some (t, newRole, a)"
    and ok: "fst (updateUserRole env data w) = Inr success_result"
  shows "users (snd (updateUserRole env data w)) =
           map (\<lambda>u. if user_id u = t then u\<lparr>role := newRole\<rparr> else u) (users w)
       \<and> map (\<lambda>u. (user_id u, firebaseUid u, email u, firstName u, lastName u, displayName u,
                   emailVerified u, user_v u)) (users (snd (updateUserRole env data w))) =
         map (\<lambda>u. (user_id u, firebaseUid u, email u, firstName u, lastName u, displayName u,
                   emailVerified u, user_v u)) (users w)
       \<and> map role (users (snd (updateUserRole env data w))) =
           map (\<lambda>u. if user_id u = t then newRole else role u) (users w)
       \<and> centers (snd (updateUserRole env data w)) = centers w
       \<and> idp_accounts (snd (updateUserRole env data w)) = idp_accounts w
       \<and> idp_calls (snd (updateUserRole env data w)) = idp_calls w"
proof -
  have shape: "snd (updateUserRole env data w) =
      w\<lparr>users := map (\<lambda>u. if user_id u = t then u\<lparr>role := newRole\<rparr> else u) (users w)\<rparr>"
    using valid ok by (rule updateUserRole_success_effect)
  show ?thesis
    unfolding shape by (simp add: comp_def if_distrib cong: if_cong)
qed

text \<open>
  The scenario of the specification: the administrator A1 makes the user U2 an
  authority; U2 shows the new role and nothing else has changed.
\<close>

theorem updateUserRole_changes_only_the_role_witness:
  "fst (updateUserRole env_ok (role_request ''U2'' ''authority'' ''A1'') world0) =
     Inr success_result
 \<and> users (snd (updateUserRole env_ok (role_request ''U2'' ''authority'' ''A1'') world0)) =
     [admin_A1, citizen_C1\<lparr>role := Authority\<rparr>]
 \<and> centers (snd (updateUserRole env_ok (role_request ''U2'' ''authority'' ''A1'') world0)) =
     centers world0"
proof -
  have ok: "fst (updateUserRole env_ok (role_request ''U2'' ''authority'' ''A1'') world0) =
      Inr success_result"
    by (simp add: deployment_defs schema_defs updateUserRole_def updateUserRole_try_def
        store_defs attempt_def bnd_Inr)
  have valid: "updateUserRoleSchema (role_request ''U2'' ''authority'' ''A1'') =
      Some (''U2'', Authority, ''A1'')"
    by (simp add: deployment_defs schema_defs)
  show ?thesis
    using ok updateUserRole_changes_only_the_role [OF valid ok]
    by (simp add: world0_def admin_A1_def citizen_C1_def)
qed

subsection \<open>Approving a center\<close>

lemma verifyCenter_succeeds:
  assumes "verifyCenterSchema data = Some (cid, a)"
    and "is_administrator w a"
    and "find (\<lambda>c. center_id c = cid) (centers w) = Some c0"
    and "faults env DbConnect = None" "faults env UserFindOne = None"
      "faults env CenterFindByIdAndUpdate = None" "faults env RevalidatePath = None"
  shows "verifyCenter env data w =
     (Inr success_result,
      w\<lparr>centers := map (\<lambda>c. if center_id c = cid then c\<lparr>verified := True\<rparr> else c) (centers w)\<rparr>)"
  using assms
  by (auto simp: verifyCenter_def verifyCenter_try_def store_defs attempt_returns bnd_Inr
      is_administrator_def split: option.splits)

lemma verifyCenter_try_world:
  "snd (verifyCenter_try env cid a w) = w
 \<or> snd (verifyCenter_try env cid a w) =
     w\<lparr>centers := map (\<lambda>c. if center_id c = cid then c\<lparr>verified := True\<rparr> else c) (centers w)\<rparr>"
  by (cases "faults env DbConnect"; cases "faults env UserFindOne";
      cases "faults env CenterFindByIdAndUpdate"; cases "faults env RevalidatePath")
    (simp_all add: verifyCenter_try_def store_defs attempt_returns attempt_throws bnd_Inl
      bnd_Inr split: option.splits)

text \<open>
  Claim C3. For a valid input naming an existing center and an administrator, two
  calls of \<^verbatim>\<open>verifyCenter\<close> in a row, the collaborator calls of both returning, both
  succeed; after the first the center is verified, and the second returns the very
  world it was given, so the flag is still true. That the second call changes nothing
  does not depend on its collaborators: whatever throws in it, the world stays as the
  first call left it.
\<close>

theorem verifyCenter_idempotent:
  assumes valid: "verifyCenterSchema data = Some (cid, a)"
    and admin: "is_administrator w a"
    and exists: "find (\<lambda>c. center_id c = cid) (centers w) = Some c0"
    and first: "faults env1 DbConnect = None" "faults env1 UserFindOne = None"
      "faults env1 CenterFindByIdAndUpdate = None" "faults env1 RevalidatePath = None"
    and second: "faults env2 DbConnect = None" "faults env2 UserFindOne = None"
      "faults env2 CenterFindByIdAndUpdate = None" "faults env2 RevalidatePath = None"
  shows "fst (verifyCenter env1 data w) = Inr success_result
       \<and> verifyCenter env2 data (snd (verifyCenter env1 data w)) =
           (Inr success_result, snd (verifyCenter env1 data w))
       \<and> find (\<lambda>c. center_id c = cid) (centers (snd (verifyCenter env1 data w))) =
           Some (c0\<lparr>verified := True\<rparr>)
       \<and> (\<forall>env'. snd (verifyCenter env' data (snd (verifyCenter env1 data w))) =
             snd (verifyCenter env1 data w))"
proof -
  let ?w1 = "w\<lparr>centers :=
      map (\<lambda>c. if center_id c = cid then c\<lparr>verified := True\<rparr> else c) (centers w)\<rparr>"
  have one: "verifyCenter env1 data w = (Inr success_result, ?w1)"
    using verifyCenter_succeeds [OF valid admin exists first] .
  have admin1: "is_administrator ?w1 a"
    using admin by (simp add: is_administrator_def)
  have exists1: "find (\<lambda>c. center_id c = cid) (centers ?w1) = Some (c0\<lparr>verified := True\<rparr>)"
    using exists by (simp add: find_map_verified)
  have two: "verifyCenter env2 data ?w1 = (Inr success_result, ?w1)"
    using verifyCenter_succeeds [OF valid admin1 exists1 second]
    by (simp add: map_verified_idem)
  have any: "snd (verifyCenter env' data ?w1) = ?w1" for env'
    using valid verifyCenter_try_world [of env' cid a ?w1]
    by (auto simp: verifyCenter_def snd_catch map_verified_idem)
  show ?thesis
    using one two exists1 any by simp
qed

text \<open>The administrator A1 approves the pending center X twice.\<close>

theorem verifyCenter_idempotent_witness:
  "fst (verifyCenter env_ok (center_request ''X'' ''A1'') world0) = Inr success_result
 \<and> verifyCenter env_ok (center_request ''X'' ''A1'')
       (snd (verifyCenter env_ok (center_request ''X'' ''A1'') world0)) =
     (Inr success_result, snd (verifyCenter env_ok (center_request ''X'' ''A1'') world0))
 \<and> find (\<lambda>c. center_id c = ''X'')
       (centers (snd (verifyCenter env_ok (center_request ''X'' ''A1'') world0))) =
     Some (center_X\<lparr>verified := True\<rparr>)
 \<and> (\<forall>env'. snd (verifyCenter env' (center_request ''X'' ''A1'')
       (snd (verifyCenter env_ok (center_request ''X'' ''A1'') world0))) =
     snd (verifyCenter env_ok (center_request ''X'' ''A1'') world0))"
proof -
  have valid: "verifyCenterSchema (center_request ''X'' ''A1'') = Some (''X'', ''A1'')"
    by (simp add: deployment_defs schema_defs)
  have admin: "is_administrator world0 ''A1''"
    by (simp add: deployment_defs is_administrator_def)
  have exists: "find (\<lambda>c. center_id c = ''X'') (centers world0) = Some center_X"
    by (simp add: deployment_defs)
  have nofault: "faults env_ok DbConnect = None" "faults env_ok UserFindOne = None"
    "faults env_ok CenterFindByIdAndUpdate = None" "faults env_ok RevalidatePath = None"
    by (simp_all add: env_ok_def)
  show ?thesis
    by (rule verifyCenter_idempotent [OF valid admin exists nofault nofault])
qed

subsection \<open>Rejecting a center\<close>

lemma snd_initializeFirebaseAdmin:
  "\<exists>n. snd (initializeFirebaseAdmin env w) = w\<lparr>admin_apps := n\<rparr>"
proof -
  have same: "w = w\<lparr>admin_apps := admin_apps w\<rparr>" by simp
  show ?thesis
    unfolding initializeFirebaseAdmin_def initializeApp_def attempt_def bnd_def
    by (auto split: option.splits prod.splits sum.splits intro: exI [of _ "admin_apps w"])
qed

text \<open>
  Claim C2. Once a \<^verbatim>\<open>rejectCenter\<close> call has passed validation, authorisation and
  the center-exists check, a center without uid is rejected with no deletion request to
  the identity provider, a deletion request that fails is swallowed, and in both cases
  the center record is deleted and the call succeeds. The code keeps the second promise
  and breaks the first. Its identity-provider step (lines 161 to 169) warns and goes on
  when \<^verbatim>\<open>auth.deleteUser\<close> throws: A1 rejects the linked center X while the deletion
  throws, and the call succeeds with X gone. But the client of that step is obtained by
  \<^verbatim>\<open>initializeFirebaseAdmin\<close> one line above the \<^verbatim>\<open>try\<close>, for every center,
  linked or not. With a service-account key that is not valid JSON no admin app exists
  and \<^verbatim>\<open>admin.auth()\<close> throws; A1 then rejects the center Y, which has no uid and
  needs no client, and gets the internal error while Y stays in the store.
\<close>

theorem rejectCenter_needs_the_admin_client:
  "rejectCenterSchema (center_request ''Y'' ''A1'') = Some (''Y'', ''A1'')
 \<and> is_administrator world0 ''A1''
 \<and> find (\<lambda>c. center_id c = ''Y'') (centers world0) = Some center_Y
 \<and> uid center_Y = None
 \<and> rejectCenter env_bad_admin_key (center_request ''Y'' ''A1'') world0 =
     (Inr (failure ''An internal error occurred while rejecting the center.''), world0)
 \<and> failure ''An internal error occurred while rejecting the center.'' \<noteq> success_result
 \<and> fst (rejectCenter (env_failing AuthDeleteUser (provider_error ''auth/internal-error''))
          (center_request ''X'' ''A1'') world0) = Inr success_result
 \<and> centers (snd (rejectCenter (env_failing AuthDeleteUser (provider_error ''auth/internal-error''))
          (center_request ''X'' ''A1'') world0)) = [center_Y]"
  by (simp add: deployment_defs schema_defs is_administrator_def rejectCenter_def
      rejectCenter_try_def store_defs initializeFirebaseAdmin_def initializeApp_def
      auth_deleteUser_def attempt_def bnd_def failure_def success_result_def)

text \<open>
  The part of the rejection that the code does guard. Let a \<^verbatim>\<open>rejectCenter\<close> call
  pass validation, authorisation and the center-exists check, let
  \<^verbatim>\<open>initializeFirebaseAdmin\<close> return, and let the store's delete and the cache
  invalidation return. Then, whether \<^verbatim>\<open>auth.deleteUser\<close> throws or not, the call
  returns success, the center record is gone and all other records are as before. The
  identity provider is asked for exactly one deletion, of the center's uid, when that
  uid is present and non-empty, and for none otherwise.
\<close>

lemma rejectCenter_deletion_is_best_effort:
  assumes valid: "rejectCenterSchema data = Some (cid, a)"
    and lookups: "faults env DbConnect = None" "faults env UserFindOne = None"
      "faults env CenterFindById = None"
    and admin: "is_administrator w a"
    and exists: "find (\<lambda>c. center_id c = cid) (centers w) = Some c0"
    and client: "fst (initializeFirebaseAdmin env w) = Inr ()"
    and rest: "faults env CenterFindByIdAndDelete = None" "faults env RevalidatePath = None"
  shows "fst (rejectCenter env data w) = Inr success_result
       \<and> centers (snd (rejectCenter env data w)) = filter (\<lambda>c. center_id c \<noteq> cid) (centers w)
       \<and> find (\<lambda>c. center_id c = cid) (centers (snd (rejectCenter env data w))) = None
       \<and> users (snd (rejectCenter env data w)) = users w
       \<and> idp_calls (snd (rejectCenter env data w)) =
           (case uid c0 of
              None \<Rightarrow> idp_calls w
            | Some u \<Rightarrow> if u = [] then idp_calls w else idp_calls w @ [DeleteUserCall u])"
proof -
  obtain n where n: "snd (initializeFirebaseAdmin env w) = w\<lparr>admin_apps := n\<rparr>"
    using snd_initializeFirebaseAdmin by blast
  with client have init: "initializeFirebaseAdmin env w = (Inr (), w\<lparr>admin_apps := n\<rparr>)"
    by (simp add: prod_eq_iff)
  from admin obtain adminUser where
    au: "find (\<lambda>u. firebaseUid u = a) (users w) = Some adminUser" "role adminUser = Authority"
    by (auto simp: is_administrator_def split: option.splits)
  show ?thesis
    using valid lookups au exists init rest
    by (cases "faults env AuthDeleteUser")
      (simp_all add: rejectCenter_def rejectCenter_try_def store_defs attempt_returns bnd_Inr
        auth_deleteUser_def attempt_def find_None_iff split: option.splits)
qed

text \<open>
  The scenario of the specification: A1 rejects the center X, linked to the account
  firebase-123, while the provider's deletion throws; and A1 rejects the unlinked
  center Y.
\<close>

lemma rejectCenter_deletion_is_best_effort_instance:
  "fst (rejectCenter (env_failing AuthDeleteUser (provider_error ''auth/internal-error''))
          (center_request ''X'' ''A1'') world0) = Inr success_result
 \<and> find (\<lambda>c. center_id c = ''X'')
       (centers (snd (rejectCenter (env_failing AuthDeleteUser (provider_error ''auth/internal-error''))
          (center_request ''X'' ''A1'') world0))) = None
 \<and> idp_calls (snd (rejectCenter (env_failing AuthDeleteUser (provider_error ''auth/internal-error''))
          (center_request ''X'' ''A1'') world0)) = [DeleteUserCall ''firebase-123'']
 \<and> fst (rejectCenter env_ok (center_request ''Y'' ''A1'') world0) = Inr success_result
 \<and> centers (snd (rejectCenter env_ok (center_request ''Y'' ''A1'') world0)) = [center_X]
 \<and> idp_calls (snd (rejectCenter env_ok (center_request ''Y'' ''A1'') world0)) = []"
proof -
  let ?env = "env_failing AuthDeleteUser (provider_error ''auth/internal-error'')"
  have valid: "rejectCenterSchema (center_request ''X'' ''A1'') = Some (''X'', ''A1'')"
    "rejectCenterSchema (center_request ''Y'' ''A1'') = Some (''Y'', ''A1'')"
    by (simp_all add: deployment_defs schema_defs)
  have admin: "is_administrator world0 ''A1''"
    by (simp add: deployment_defs is_administrator_def)
  have exists: "find (\<lambda>c. center_id c = ''X'') (centers world0) = Some center_X"
    "find (\<lambda>c. center_id c = ''Y'') (centers world0) = Some center_Y"
    by (simp_all add: deployment_defs)
  have client: "fst (initializeFirebaseAdmin ?env world0) = Inr ()"
    "fst (initializeFirebaseAdmin env_ok world0) = Inr ()"
    by (simp_all add: deployment_defs initializeFirebaseAdmin_def initializeApp_def
        attempt_def bnd_def)
  have nofault: "faults ?env DbConnect = None" "faults ?env UserFindOne = None"
    "faults ?env CenterFindById = None" "faults ?env CenterFindByIdAndDelete = None"
    "faults ?env RevalidatePath = None"
    "faults env_ok DbConnect = None" "faults env_ok UserFindOne = None"
    "faults env_ok CenterFindById = None" "faults env_ok CenterFindByIdAndDelete = None"
    "faults env_ok RevalidatePath = None"
    by (simp_all add: env_ok_def env_failing_def)
  show ?thesis
    using
      rejectCenter_deletion_is_best_effort [OF valid(1) nofault(1-3) admin exists(1)
        client(1) nofault(4,5)]
      rejectCenter_deletion_is_best_effort [OF valid(2) nofault(6-8) admin exists(2)
        client(2) nofault(9,10)]
    by (simp add: world0_def center_X_def center_Y_def)
qed

subsection \<open>Every action answers with an envelope\<close>

lemma is_envelope_failure: "is_envelope (failure msg)"
  by (simp add: is_envelope_def failure_def js_get_def)


lemma toe_bnd:
  "(\<And>x w'. throws_or_envelope (f x w')) \<Longrightarrow> throws_or_envelope (bnd m f)"
  by (cases m; cases "fst m") (auto simp: bnd_def throws_or_envelope_def)

lemma toe_Inr: "is_envelope r \<Longrightarrow> throws_or_envelope (Inr r, w)"
  by (simp add: throws_or_envelope_def)




lemma toe_signup_try: "throws_or_envelope (signup_try env fd w)"
  unfolding signup_try_def Let_def
  by (intro toe_bnd) (auto intro!: toe_bnd toe_Inr simp: is_envelope_def js_get_def)

lemma catch_envelope:
  "throws_or_envelope m \<Longrightarrow>
     returns_envelope
       (case m of (Inl e, w') \<Rightarrow> (Inr (failure (h e)), w') | (Inr r, w') \<Rightarrow> (Inr r, w'))"
  by (cases m; cases "fst m")
    (auto simp: throws_or_envelope_def returns_envelope_def is_envelope_failure)






lemma signup_envelope: "returns_envelope (signup env fd w)"
  unfolding signup_def
  by (rule catch_envelope [OF toe_signup_try])

lemma signup_action_envelope: "returns_envelope (signup_action env (FormData fd) w)"
  by (simp add: signup_action_def signup_envelope)




subsection \<open>Signup\<close>

lemma signup_catch_returnsD:
  "(case m of (Inl e, w') \<Rightarrow> (Inr (failure (h e)), w') | (Inr r, w') \<Rightarrow> (Inr r, w')) = (Inr r, w'')
     \<Longrightarrow> js_get r ''success'' = JBool True \<Longrightarrow> m = (Inr r, w'')"
  by (cases m; cases "fst m") (auto simp: failure_def js_get_def)

lemma signup_try_success:
  assumes "signup_try env fd w = (Inr r, w')"
  shows "r = JObj [(''success'', JBool True),
                   (''user'', JObj (filter (\<lambda>kv. fst kv \<noteq> ''_id'' \<and> fst kv \<noteq> ''__v'')
                      (toObject (new_User env (fb_uid (created_user env)) (fb_email (created_user env))
                         (form_firstName fd) (form_lastName fd)
                         (form_firstName fd @ '' '' @ form_lastName fd) False))))]
       \<and> users w' = users w @ [new_User env (fb_uid (created_user env)) (fb_email (created_user env))
                         (form_firstName fd) (form_lastName fd)
                         (form_firstName fd @ '' '' @ form_lastName fd) False]"
  using assms unfolding signup_try_def Let_def store_defs createUserWithEmailAndPassword_def
    sendEmailVerification_def
  by (auto elim!: bnd_returnsE dest!: attempt_returnsD)

text \<open>
  Claim C10. When \<^verbatim>\<open>signup\<close> succeeds, the \<^verbatim>\<open>user\<close> object of its result has no
  \<^verbatim>\<open>password\<close>, no \<^verbatim>\<open>_id\<close> and no \<^verbatim>\<open>__v\<close> field (it does carry the account's
  firebaseUid, the displayName and emailVerified), and the store holds one more user,
  the persisted record: it carries the store-assigned id and version, its displayName
  is firstName, a space, lastName, and its emailVerified is false.
\<close>

theorem signup_returned_user_object:
  assumes ok: "fst (signup env fd w) = Inr r" and success: "js_get r ''success'' = JBool True"
  shows "js_get (js_get r ''user'') ''password'' = JUndefined
       \<and> js_get (js_get r ''user'') ''_id'' = JUndefined
       \<and> js_get (js_get r ''user'') ''__v'' = JUndefined
       \<and> js_get (js_get r ''user'') ''firebaseUid'' = JStr (fb_uid (created_user env))
       \<and> js_get (js_get r ''user'') ''displayName'' =
           JStr (form_firstName fd @ '' '' @ form_lastName fd)
       \<and> js_get (js_get r ''user'') ''emailVerified'' = JBool False
       \<and> length (users (snd (signup env fd w))) = Suc (length (users w))
       \<and> butlast (users (snd (signup env fd w))) = users w
       \<and> user_id (last (users (snd (signup env fd w)))) = new_object_id env
       \<and> user_v (last (users (snd (signup env fd w)))) = 0
       \<and> displayName (last (users (snd (signup env fd w)))) =
           form_firstName fd @ '' '' @ form_lastName fd
       \<and> emailVerified (last (users (snd (signup env fd w)))) = False"
proof -
  obtain w' where res: "signup env fd w = (Inr r, w')"
    using ok by (cases "signup env fd w") auto
  then have "signup_try env fd w = (Inr r, w')"
    unfolding signup_def using success by (rule signup_catch_returnsD)
  from signup_try_success [OF this] res show ?thesis
    by (simp add: js_get_def toObject_def new_User_def)
qed

text \<open>Nadia Rahman signs up; nothing fails.\<close>

theorem signup_returned_user_object_witness:
  "fst (signup env_ok form0 world0) =
     Inr (JObj [(''success'', JBool True),
                (''user'', JObj [(''firebaseUid'', JStr ''N1''),
                                 (''email'', JStr ''nadia@vaxsys.example''),
                                 (''firstName'', JStr ''Nadia''), (''lastName'', JStr ''Rahman''),
                                 (''displayName'', JStr ''Nadia Rahman''),
                                 (''role'', JStr ''citizen''),
                                 (''emailVerified'', JBool False)])])
 \<and> js_get (js_get (JObj [(''success'', JBool True),
                (''user'', JObj [(''firebaseUid'', JStr ''N1''),
                                 (''email'', JStr ''nadia@vaxsys.example''),
                                 (''firstName'', JStr ''Nadia''), (''lastName'', JStr ''Rahman''),
                                 (''displayName'', JStr ''Nadia Rahman''),
                                 (''role'', JStr ''citizen''),
                                 (''emailVerified'', JBool False)])]) ''user'') ''password'' = JUndefined
 \<and> displayName (last (users (snd (signup env_ok form0 world0)))) = ''Nadia Rahman''
 \<and> emailVerified (last (users (snd (signup env_ok form0 world0)))) = False
 \<and> user_id (last (users (snd (signup env_ok form0 world0)))) = ''U3''"
proof -
  let ?r = "JObj [(''success'', JBool True),
                (''user'', JObj [(''firebaseUid'', JStr ''N1''),
                                 (''email'', JStr ''nadia@vaxsys.example''),
                                 (''firstName'', JStr ''Nadia''), (''lastName'', JStr ''Rahman''),
                                 (''displayName'', JStr ''Nadia Rahman''),
                                 (''role'', JStr ''citizen''),
                                 (''emailVerified'', JBool False)])]"
  have ok: "fst (signup env_ok form0 world0) = Inr ?r"
    by (simp add: deployment_defs signup_def signup_try_def Let_def store_defs
        createUserWithEmailAndPassword_def sendEmailVerification_def attempt_def bnd_Inr
        new_User_def toObject_def role_name_def login_url_def)
  have success: "js_get ?r ''success'' = JBool True"
    by (simp add: js_get_def)
  show ?thesis
    using ok signup_returned_user_object [OF ok success]
    by (simp add: env_ok_def form0_def)
qed

text \<open>
  Claim C6. When the identity provider turns the account creation down with an error,
  no local user is created; the failure message is the email-already-in-use text when
  the error's code is \<^verbatim>\<open>auth/email-already-in-use\<close>, and the generic text when the code
  is neither that nor \<^verbatim>\<open>auth/weak-password\<close>.
\<close>

theorem signup_provider_rejects_account:
  assumes "faults env GetAuth = None"
    and "faults env CreateUserWithEmailAndPassword = Some e"
  shows "users (snd (signup env fd w)) = users w
       \<and> (err_code e = JStr ''auth/email-already-in-use'' \<longrightarrow>
            fst (signup env fd w) = Inr (failure ''A user with this email already exists.''))
       \<and> (err_code e \<noteq> JStr ''auth/email-already-in-use''
            \<and> err_code e \<noteq> JStr ''auth/weak-password'' \<longrightarrow>
            fst (signup env fd w) = Inr (failure ''An unexpected error occurred during signup.''))"
  using assms
  by (simp add: signup_def signup_try_def attempt_returns attempt_throws bnd_Inr bnd_Inl
      createUserWithEmailAndPassword_def signup_errorMessage_def)

text \<open>
  The provider reports the email as taken, and, in a second signup, an operation that
  is not allowed: the two messages, and no new user in either case.
\<close>

theorem signup_provider_rejects_account_witness:
  "signup (env_failing CreateUserWithEmailAndPassword (provider_error ''auth/email-already-in-use''))
     form0 world0 =
     (Inr (failure ''A user with this email already exists.''),
      world0\<lparr>idp_calls := [CreateUserCall ''nadia@vaxsys.example'' ''correct horse'']\<rparr>)
 \<and> fst (signup (env_failing CreateUserWithEmailAndPassword
            (provider_error ''auth/operation-not-allowed'')) form0 world0) =
     Inr (failure ''An unexpected error occurred during signup.'')
 \<and> users (snd (signup (env_failing CreateUserWithEmailAndPassword
            (provider_error ''auth/operation-not-allowed'')) form0 world0)) = users world0"
proof -
  let ?taken = "env_failing CreateUserWithEmailAndPassword
      (provider_error ''auth/email-already-in-use'')"
  let ?other = "env_failing CreateUserWithEmailAndPassword
      (provider_error ''auth/operation-not-allowed'')"
  have f: "faults ?taken GetAuth = None"
    "faults ?taken CreateUserWithEmailAndPassword =
       Some (provider_error ''auth/email-already-in-use'')"
    "faults ?other GetAuth = None"
    "faults ?other CreateUserWithEmailAndPassword =
       Some (provider_error ''auth/operation-not-allowed'')"
    by (simp_all add: env_failing_def env_ok_def)
  have w: "snd (signup ?taken form0 world0) =
      world0\<lparr>idp_calls := [CreateUserCall ''nadia@vaxsys.example'' ''correct horse'']\<rparr>"
    by (simp add: deployment_defs signup_def signup_try_def
        createUserWithEmailAndPassword_def attempt_def bnd_Inl bnd_Inr)
  show ?thesis
    using w signup_provider_rejects_account [OF f(1,2), of form0 world0]
      signup_provider_rejects_account [OF f(3,4), of form0 world0]
    by (simp add: provider_error_def prod_eq_iff)
qed

text \<open>
  Claim C7, as stated, fails: \<^verbatim>\<open>sendEmailVerification\<close> is awaited inside the one
  \<^verbatim>\<open>try\<close> of \<^verbatim>\<open>signup\<close> with no handler of its own. When it throws, the signup
  returns a failure and the local user is not created, although the account exists at
  the identity provider.
\<close>

theorem signup_fails_when_verification_email_fails:
  "fst (signup (env_failing SendEmailVerification (provider_error ''auth/too-many-requests''))
          form0 world0) =
     Inr (failure ''An unexpected error occurred during signup.'')
 \<and> js_get (failure ''An unexpected error occurred during signup.'') ''success'' = JBool False
 \<and> users (snd (signup (env_failing SendEmailVerification
            (provider_error ''auth/too-many-requests'')) form0 world0)) = users world0
 \<and> idp_accounts (snd (signup (env_failing SendEmailVerification
            (provider_error ''auth/too-many-requests'')) form0 world0)) =
     idp_accounts world0 @ [\<lparr>fb_uid = ''N1'', fb_email = ''nadia@vaxsys.example''\<rparr>]"
  by (simp add: deployment_defs signup_def signup_try_def createUserWithEmailAndPassword_def
      sendEmailVerification_def attempt_def bnd_Inl bnd_Inr signup_errorMessage_def
      failure_def js_get_def)

text \<open>
  Claim C7, amended. When the account has been created and the verification-email
  dispatch throws, the error is caught at the boundary of \<^verbatim>\<open>signup\<close> only: the call
  returns a failure whose message is chosen from the error's code like that of any
  other error, no local user is created, and the account just created stays at the
  identity provider.
\<close>

theorem signup_verification_email_failure_aborts:
  assumes "faults env GetAuth = None"
    and "faults env CreateUserWithEmailAndPassword = None"
    and "faults env SendEmailVerification = Some e"
  shows "fst (signup env fd w) = Inr (failure (signup_errorMessage e))
       \<and> users (snd (signup env fd w)) = users w
       \<and> idp_accounts (snd (signup env fd w)) = idp_accounts w @ [created_user env]"
  using assms
  by (simp add: signup_def signup_try_def attempt_returns attempt_throws bnd_Inr bnd_Inl
      createUserWithEmailAndPassword_def sendEmailVerification_def)

text \<open>The dispatch is throttled by the provider during Nadia Rahman's signup.\<close>

theorem signup_verification_email_failure_aborts_witness:
  "fst (signup (env_failing SendEmailVerification (provider_error ''auth/too-many-requests''))
          form0 world0) =
     Inr (failure (signup_errorMessage (provider_error ''auth/too-many-requests'')))
 \<and> signup_errorMessage (provider_error ''auth/too-many-requests'') =
     ''An unexpected error occurred during signup.''
 \<and> users (snd (signup (env_failing SendEmailVerification
            (provider_error ''auth/too-many-requests'')) form0 world0)) = users world0"
proof -
  let ?env = "env_failing SendEmailVerification (provider_error ''auth/too-many-requests'')"
  have f: "faults ?env GetAuth = None" "faults ?env CreateUserWithEmailAndPassword = None"
    "faults ?env SendEmailVerification = Some (provider_error ''auth/too-many-requests'')"
    by (simp_all add: env_failing_def env_ok_def)
  show ?thesis
    using signup_verification_email_failure_aborts [OF f, of form0 world0]
    by (simp add: signup_errorMessage_def provider_error_def)
qed

end
